theory Spec2Isabelle
  imports Main "HOL-Library.Sublist" "HOL-Library.Multiset"
begin

section \<open>The record table of the WMS dashboard (app.py)\<close>

text \<open>
  The program keeps one pandas data frame \<open>df\<close> with seven columns, read from and written
  to the file \<open>site_records.csv\<close>. A data frame is modelled as the list of its rows. The
  column \<open>Sr_No\<close> holds integers; the six other columns hold text, or the missing value
  \<open>NaN\<close> that \<open>read_csv\<close> puts where the file has one of its NA tokens.
\<close>

datatype cell = Str string | NaN

record row =
  Sr_No :: int
  Site_Name :: cell
  Validation_Report :: cell
  Issue_Sensors :: cell
  WMS_Type :: cell
  Issue_Description :: cell
  Date_Logged :: cell

type_synonym DataFrame = "row list"

text \<open>What the program can raise. \<open>Unmodelled\<close> is not a Python exception: it marks an input
  outside the fragment of the library that this theory describes.\<close>

datatype exn = ValueError | RegexError | EmptyDataError | Unmodelled

subsection \<open>Text of numbers and of cells\<close>

definition digit_char :: "nat \<Rightarrow> char" where
  "digit_char d = char_of (48 + d)"

fun str_nat :: "nat \<Rightarrow> string" where
  "str_nat n = (if n < 10 then [digit_char n] else str_nat (n div 10) @ [digit_char (n mod 10)])"

declare str_nat.simps [simp del]

text \<open>Python's \<open>str\<close> of an integer.\<close>

definition str_int :: "int \<Rightarrow> string" where
  "str_int i = (if i < 0 then CHR ''-'' # str_nat (nat (- i)) else str_nat (nat i))"

text \<open>\<open>astype(str)\<close> on a cell: a missing value becomes the text \<open>nan\<close>.\<close>

fun astype_str :: "cell \<Rightarrow> string" where
  "astype_str (Str s) = s"
| "astype_str NaN = ''nan''"

text \<open>The elementwise \<open>!=\<close> and \<open>==\<close> of pandas on an object column: a missing value is
  different from everything, itself included.\<close>

fun ne :: "cell \<Rightarrow> cell \<Rightarrow> bool" where
  "ne (Str a) (Str b) = (a \<noteq> b)"
| "ne _ _ = True"

subsection \<open>The seed table of \<open>load_data\<close> (lines 16 to 25)\<close>

definition mk_row :: "int \<Rightarrow> string \<Rightarrow> string \<Rightarrow> string \<Rightarrow> string \<Rightarrow> string \<Rightarrow> string \<Rightarrow> row" where
  "mk_row n site val sensor wms descr dat =
     \<lparr>Sr_No = n, Site_Name = Str site, Validation_Report = Str val, Issue_Sensors = Str sensor,
      WMS_Type = Str wms, Issue_Description = Str descr, Date_Logged = Str dat\<rparr>"

definition seed_data :: DataFrame where
  "seed_data =
    [mk_row 1 ''Site-A (North)'' ''Validated'' ''Temp Sensor'' ''WMS-1'' ''Calibration Drift'' ''2023-01-15'',
     mk_row 2 ''Site-B (South)'' ''Failed'' ''None'' ''WMS-2'' ''No Issues'' ''2023-02-20'',
     mk_row 3 ''Site-C (East)'' ''Validated'' ''Humidity Sensor'' ''WMS-1'' ''Connector Fault'' ''2023-03-10'',
     mk_row 4 ''Site-D (West)'' ''Failed'' ''Pressure Sensor'' ''WMS-2'' ''Power Failure'' ''2023-04-05'',
     mk_row 5 ''Site-E (North)'' ''Pending'' ''None'' ''WMS-1'' ''No Issues'' ''2023-05-12'']"

subsection \<open>The backing file and \<open>save_data\<close> (lines 30 and 31)\<close>

text \<open>
  The file is modelled after the CSV layer: a list of records, each a list of field texts,
  the first record being the header. The quoting that \<open>to_csv\<close> adds around a field with a
  comma or a quote, and that \<open>read_csv\<close> removes, is below this level.
  \<open>to_csv(index=False)\<close> writes the column names, then one record per row: an integer in
  decimal, a text as it is, a missing value as the empty field.
\<close>

type_synonym csv = "string list list"

definition COLUMNS :: "string list" where
  "COLUMNS = [''Sr_No'', ''Site Name'', ''Validation Report'', ''Issue Sensors'', ''WMS_Type'',
              ''Issue_Description'', ''Date_Logged'']"

fun csv_field :: "cell \<Rightarrow> string" where
  "csv_field (Str s) = s"
| "csv_field NaN = []"

definition csv_record :: "row \<Rightarrow> string list" where
  "csv_record r = [str_int (Sr_No r), csv_field (Site_Name r), csv_field (Validation_Report r),
                   csv_field (Issue_Sensors r), csv_field (WMS_Type r),
                   csv_field (Issue_Description r), csv_field (Date_Logged r)]"

definition to_csv :: "DataFrame \<Rightarrow> csv" where
  "to_csv df = COLUMNS # map csv_record df"

text \<open>The disk: the content of \<open>DATA_FILE\<close> (\<open>None\<close> while it does not exist) and the number
  of times the file has been written.\<close>

record disk =
  data_file :: "csv option"
  writes :: nat

definition save_data :: "DataFrame \<Rightarrow> disk \<Rightarrow> disk" where
  "save_data df d = d\<lparr>data_file := Some (to_csv df), writes := Suc (writes d)\<rparr>"

subsection \<open>Adding a record (lines 138 to 156)\<close>

text \<open>\<open>Series.max()\<close> skips nothing here and gives the missing value on an empty column.\<close>

fun series_max :: "int list \<Rightarrow> int option" where
  "series_max [] = None"
| "series_max (x # xs) = Some (fold max xs x)"

text \<open>
  The column \<open>Sr_No\<close> has the dtype \<open>int64\<close>: the seed table is built from small Python
  integers, \<open>read_csv\<close> gives the column that type, and \<open>concat\<close> keeps it. Its values are
  the integers from \<open>- 2 ^ 63\<close> to \<open>2 ^ 63 - 1\<close>, and the sum of two of them is taken modulo
  \<open>2 ^ 64\<close>.
\<close>

definition in_int64 :: "int \<Rightarrow> bool" where
  "in_int64 x = (- (2 ^ 63) \<le> x \<and> x < 2 ^ 63)"

definition int64_column :: "DataFrame \<Rightarrow> bool" where
  "int64_column df = list_all (\<lambda>r. in_int64 (Sr_No r)) df"

definition wrap_int64 :: "int \<Rightarrow> int" where
  "wrap_int64 x = (x + 2 ^ 63) mod 2 ^ 64 - 2 ^ 63"

text \<open>
  \<open>int(df['Sr_No'].max() + 1)\<close>. On a column with rows the maximum is a numpy \<open>int64\<close> and
  \<open>+ 1\<close> is the addition of that type, which wraps around at \<open>2 ^ 63 - 1\<close>. On the empty
  column the maximum is the missing value, \<open>NaN + 1\<close> is \<open>NaN\<close>, and \<open>int\<close> of it raises
  \<open>ValueError\<close>.
\<close>

definition next_sr_no :: "DataFrame \<Rightarrow> exn + int" where
  "next_sr_no df =
     (case series_max (map Sr_No df) of None \<Rightarrow> Inl ValueError | Some m \<Rightarrow> Inr (wrap_int64 (m + 1)))"

text \<open>
  \<open>datetime.today().strftime('%Y-%m-%d')\<close>: the clock is an argument. \<open>strftime\<close> hands the
  format to the C library: \<open>%m\<close> and \<open>%d\<close> are two digits, filled with a zero, and \<open>%Y\<close> is
  the year in decimal, which the C library of Linux does not fill, so that a year below 1000
  has fewer than four digits.
\<close>

record date =
  year :: nat
  month :: nat
  day :: nat

definition zfill :: "nat \<Rightarrow> string \<Rightarrow> string" where
  "zfill w s = replicate (w - length s) CHR ''0'' @ s"

definition strftime_Ymd :: "date \<Rightarrow> string" where
  "strftime_Ymd d = str_nat (year d) @ ''-'' @ zfill 2 (str_nat (month d)) @ ''-''
                     @ zfill 2 (str_nat (day d))"

text \<open>The five inputs of the form \<open>add_record_form\<close>.\<close>

record form =
  new_site :: string
  new_val :: string
  new_wms :: string
  new_sensor :: string
  new_issue_desc :: string

text \<open>What the user sees after the handler: \<open>st.success\<close>, \<open>st.error\<close>, or an exception.\<close>

datatype outcome = St_success string | St_error string | Raised exn

definition new_data :: "int \<Rightarrow> form \<Rightarrow> date \<Rightarrow> row" where
  "new_data n f today =
     \<lparr>Sr_No = n,
      Site_Name = Str (new_site f),
      Validation_Report = Str (new_val f),
      Issue_Sensors = Str (if new_sensor f \<noteq> [] then new_sensor f else ''None''),
      WMS_Type = Str (new_wms f),
      Issue_Description = Str (if new_issue_desc f \<noteq> [] then new_issue_desc f else ''No Issues''),
      Date_Logged = Str (strftime_Ymd today)\<rparr>"

text \<open>The body of \<open>if submitted:\<close>. The state is the data frame in memory and the disk.\<close>

definition add_record :: "date \<Rightarrow> form \<Rightarrow> DataFrame \<times> disk \<Rightarrow> outcome \<times> DataFrame \<times> disk" where
  "add_record today f st =
     (let (df, d) = st in
      if new_site f \<noteq> [] then
        (case next_sr_no df of
           Inl e \<Rightarrow> (Raised e, df, d)
         | Inr n \<Rightarrow>
             (let df' = df @ [new_data n f today]
              in (St_success (''Record for '' @ new_site f @ '' saved successfully!''), df', save_data df' d)))
      else (St_error ''Site Name is required.'', df, d))"

subsection \<open>Deleting a site (lines 160 to 165)\<close>

definition delete_site :: "cell \<Rightarrow> DataFrame \<times> disk \<Rightarrow> DataFrame \<times> disk" where
  "delete_site site_to_delete st =
     (let (df, d) = st; df' = filter (\<lambda>r. ne (Site_Name r) site_to_delete) df
      in (df', save_data df' d))"

subsection \<open>Search (lines 106 to 111)\<close>

text \<open>
  \<open>row.astype(str).str.contains(search_term, case=False).any()\<close>. \<open>Series.str.contains\<close> has
  \<open>regex=True\<close> by default: the term is compiled as a regular expression with
  \<open>re.IGNORECASE\<close> and each cell, as text, is searched for a match.

  Text is taken to be ASCII: \<open>lower\<close> folds the letters A to Z and leaves every other
  character as it is.
\<close>

definition lower :: "char \<Rightarrow> char" where
  "lower c = (let n = (of_char c :: nat) in if 65 \<le> n \<and> n \<le> 90 then char_of (n + 32) else c)"

text \<open>
  The fragment of Python's regular expressions described here: a character that is not
  special stands for itself, the dot stands for any character but the newline, and
  parentheses group. With no operator applied to a group, a group matches what its content
  matches, so a compiled pattern is the sequence of its characters and dots. A closing
  parenthesis with no open group, and a group still open at the end, make \<open>re.compile\<close>
  raise \<open>re.error\<close>. Every other special character, and \<open>(?\<close>, is outside the fragment.
\<close>

datatype atom = Lit char | AnyChar

definition metachar :: "char \<Rightarrow> bool" where
  "metachar c = (c \<in> set [CHR ''.'', CHR ''^'', CHR ''$'', CHR ''*'', CHR ''+'', CHR ''?'', CHR ''{'', CHR ''}'',
                          CHR ''['', CHR '']'', CHR 0x5C, CHR ''|'', CHR ''('', CHR '')''])"

fun re_compile :: "nat \<Rightarrow> string \<Rightarrow> exn + atom list" where
  "re_compile depth [] = (if depth = 0 then Inr [] else Inl RegexError)"
| "re_compile depth (c # cs) =
     (if c = CHR ''('' then
        (if cs \<noteq> [] \<and> hd cs = CHR ''?'' then Inl Unmodelled else re_compile (Suc depth) cs)
      else if c = CHR '')'' then
        (if depth = 0 then Inl RegexError else re_compile (depth - 1) cs)
      else if c = CHR ''.'' then map_sum id (Cons AnyChar) (re_compile depth cs)
      else if metachar c then Inl Unmodelled
      else map_sum id (Cons (Lit c)) (re_compile depth cs))"

fun atom_matches :: "atom \<Rightarrow> char \<Rightarrow> bool" where
  "atom_matches (Lit c) d = (lower c = lower d)"
| "atom_matches AnyChar d = (d \<noteq> CHR 0x0A)"

text \<open>The pattern matches at the start of the text.\<close>

fun match_here :: "atom list \<Rightarrow> string \<Rightarrow> bool" where
  "match_here [] s = True"
| "match_here (a # as) [] = False"
| "match_here (a # as) (d # ds) = (atom_matches a d \<and> match_here as ds)"

text \<open>\<open>pattern.search(text) is not None\<close>: the pattern matches at some position.\<close>

fun re_search :: "atom list \<Rightarrow> string \<Rightarrow> bool" where
  "re_search p [] = match_here p []"
| "re_search p (d # ds) = (match_here p (d # ds) \<or> re_search p ds)"

definition row_astype_str :: "row \<Rightarrow> string list" where
  "row_astype_str r = [str_int (Sr_No r), astype_str (Site_Name r), astype_str (Validation_Report r),
                       astype_str (Issue_Sensors r), astype_str (WMS_Type r),
                       astype_str (Issue_Description r), astype_str (Date_Logged r)]"

text \<open>
  \<open>filtered_df\<close>. On a frame without rows \<open>apply\<close> calls the lambda on no row and the result
  has no rows; otherwise the first row compiles the term, and an invalid term raises.
\<close>

definition search :: "string \<Rightarrow> DataFrame \<Rightarrow> exn + DataFrame" where
  "search search_term df =
     (if search_term \<noteq> [] then
        (if df = [] then Inr []
         else case re_compile 0 search_term of
                Inl e \<Rightarrow> Inl e
              | Inr pat \<Rightarrow> Inr (filter (\<lambda>row. list_ex (re_search pat) (row_astype_str row)) df))
      else Inr df)"

text \<open>
  The search as the specification words it: a record is kept when some field, as text and
  case-folded, contains the case-folded term as a substring; the empty term keeps all.
\<close>

definition contains_ci :: "string \<Rightarrow> string \<Rightarrow> bool" where
  "contains_ci T field = sublist (map lower T) (map lower field)"

definition search_spec :: "string \<Rightarrow> DataFrame \<Rightarrow> DataFrame" where
  "search_spec T df = (if T = [] then df else filter (\<lambda>R. list_ex (contains_ci T) (row_astype_str R)) df)"

subsection \<open>Dates and sample inputs\<close>

text \<open>The form \<open>YYYY-MM-DD\<close>: ten characters, digits except for the two dashes.\<close>

definition is_digit :: "char \<Rightarrow> bool" where
  "is_digit c = (let n = (of_char c :: nat) in 48 \<le> n \<and> n \<le> 57)"

definition iso_date_form :: "string \<Rightarrow> bool" where
  "iso_date_form s = (length s = 10 \<and> s ! 4 = CHR ''-'' \<and> s ! 7 = CHR ''-'' \<and>
     list_all is_digit (take 4 s) \<and> list_all is_digit (take 2 (drop 5 s)) \<and> list_all is_digit (drop 8 s))"

text \<open>The range of a \<open>datetime\<close>: years 1 to 9999.\<close>

definition valid_date :: "date \<Rightarrow> bool" where
  "valid_date d = (1 \<le> year d \<and> year d \<le> 9999 \<and> 1 \<le> month d \<and> month d \<le> 12 \<and> 1 \<le> day d \<and> day d \<le> 31)"

text \<open>The insert of the scenario in section 8 of the specification, a day, and a disk that
  holds a given table.\<close>

definition form_F :: form where
  "form_F = \<lparr>new_site = ''Site-F'', new_val = ''Pending'', new_wms = ''WMS-1'', new_sensor = [], new_issue_desc = []\<rparr>"

definition day0 :: date where
  "day0 = \<lparr>year = 2024, month = 2, day = 9\<rparr>"

definition disk_of :: "DataFrame \<Rightarrow> disk" where
  "disk_of df = \<lparr>data_file = Some (to_csv df), writes = 0\<rparr>"

subsection \<open>The charts of the overview page (lines 70 to 93)\<close>

text \<open>\<open>issue_df = df[df['Issue Sensors'] != 'None']\<close>, the rows handed to all three charts.\<close>

definition issue_df :: "DataFrame \<Rightarrow> DataFrame" where
  "issue_df df = filter (\<lambda>r. ne (Issue_Sensors r) (Str ''None'')) df"

text \<open>
  A pie chart given only \<open>names\<close>, and a histogram given a categorical \<open>x\<close> and a \<open>color\<close>,
  count how often each label occurs. The labels are kept in the order of their first
  occurrence.
\<close>

definition uniques :: "'a list \<Rightarrow> 'a list" where
  "uniques xs = rev (remdups (rev xs))"

definition label_counts :: "'a list \<Rightarrow> ('a \<times> nat) list" where
  "label_counts xs = map (\<lambda>x. (x, count_list xs x)) (uniques xs)"

text \<open>The count shown for a label; 0 for a label that has no sector or bar.\<close>

definition bar_height :: "('a \<times> nat) list \<Rightarrow> 'a \<Rightarrow> nat" where
  "bar_height bars k = (case map_of bars k of None \<Rightarrow> 0 | Some n \<Rightarrow> n)"

text \<open>\<open>fig_sensor\<close> (line 72): drawn only when \<open>issue_df\<close> is not empty; no sectors otherwise.\<close>

definition issue_sensor_distribution :: "DataFrame \<Rightarrow> (cell \<times> nat) list" where
  "issue_sensor_distribution df =
     (let issue = issue_df df in if issue \<noteq> [] then label_counts (map Issue_Sensors issue) else [])"

text \<open>\<open>fig_wms\<close> (line 81): one bar for each pair of WMS type and validation report.\<close>

definition wms_failure_crosstab :: "DataFrame \<Rightarrow> ((cell \<times> cell) \<times> nat) list" where
  "wms_failure_crosstab df =
     (let issue = issue_df df
      in if issue \<noteq> [] then label_counts (map (\<lambda>r. (WMS_Type r, Validation_Report r)) issue) else [])"

text \<open>
  \<open>value_counts()\<close> (line 89) drops the missing values, counts each value, and orders the
  result with \<open>Series.sort_values(ascending=False)\<close>. pandas documents the result as being in
  descending order of the counts; which of two values with the same count comes first is
  left to the sorting routine of the installed pandas and numpy, so the sort is an argument
  here.
\<close>

definition value_counts :: "((cell \<times> nat) list \<Rightarrow> (cell \<times> nat) list) \<Rightarrow> cell list \<Rightarrow> (cell \<times> nat) list" where
  "value_counts sort_values xs = sort_values (label_counts (filter (\<lambda>c. c \<noteq> NaN) xs))"

text \<open>\<open>top_issues\<close> (lines 88 and 89).\<close>

definition top_issue_descriptions :: "((cell \<times> nat) list \<Rightarrow> (cell \<times> nat) list) \<Rightarrow> DataFrame \<Rightarrow> (cell \<times> nat) list" where
  "top_issue_descriptions sort_values df =
     (let issue = issue_df df
      in if issue \<noteq> [] then value_counts sort_values (map Issue_Description issue) else [])"

text \<open>One sort that \<open>sort_values\<close> may be: by count, largest first.\<close>

definition by_count_descending :: "(cell \<times> nat) list \<Rightarrow> (cell \<times> nat) list" where
  "by_count_descending kvs = sort_key (\<lambda>kv. - int (snd kv)) kvs"

subsection \<open>Reading the file back: \<open>load_data\<close> (lines 13 to 28)\<close>

text \<open>
  \<open>pd.read_csv(DATA_FILE)\<close> with its defaults: the first record names the columns, the type
  of each column is inferred from its fields, and a field that is one of the NA tokens is
  read as the missing value. The tokens are an argument of the model, since the list
  depends on the installed pandas: \<open>STR_NA_VALUES\<close> is the list shared by pandas 1 and
  pandas 2, and pandas 2 has \<open>None\<close> in addition.
\<close>

definition STR_NA_VALUES :: "string list" where
  "STR_NA_VALUES = [''-1.#IND'', ''1.#QNAN'', ''1.#IND'', ''-1.#QNAN'', ''#N/A N/A'', ''#N/A'', ''N/A'',
                    ''n/a'', ''NA'', ''<NA>'', ''#NA'', ''NULL'', ''null'', ''NaN'', ''-NaN'', ''nan'', ''-nan'', []]"

text \<open>
  A column becomes an integer column when every field is a decimal integer and none is an
  NA token. Only integers of at most 18 digits are described; they fit 64 bits.
\<close>

definition int_literal :: "string \<Rightarrow> bool" where
  "int_literal s =
     (let ds = (if s \<noteq> [] \<and> hd s = CHR ''-'' then tl s else s)
      in ds \<noteq> [] \<and> length ds \<le> 18 \<and> list_all is_digit ds)"

fun nat_of_digits :: "nat \<Rightarrow> string \<Rightarrow> nat" where
  "nat_of_digits acc [] = acc"
| "nat_of_digits acc (c # cs) = nat_of_digits (10 * acc + (of_char c - 48)) cs"

definition int_of_literal :: "string \<Rightarrow> int" where
  "int_of_literal s =
     (if s \<noteq> [] \<and> hd s = CHR ''-'' then - int (nat_of_digits 0 (tl s)) else int (nat_of_digits 0 s))"

text \<open>
  A column that is not numeric and not boolean becomes a column of text, with the missing
  value for the NA tokens. One field that is no NA token and cannot be read as a number or
  a truth value is enough for that. \<open>numeric_looking\<close> holds for every text that pandas
  could read as a number or a truth value (digits, a decimal point, an exponent, signs at
  the start or after the exponent mark, blanks around, \<open>inf\<close>, \<open>infinity\<close>, \<open>true\<close>,
  \<open>false\<close> in any case), and for some others.
\<close>

fun num_body :: "char \<Rightarrow> string \<Rightarrow> bool" where
  "num_body prev [] = True"
| "num_body prev (c # cs) =
     ((is_digit c \<or> c = CHR ''.'' \<or> c = CHR ''e''
        \<or> ((c = CHR ''+'' \<or> c = CHR ''-'') \<and> prev = CHR ''e''))
      \<and> num_body c cs)"

definition numeric_looking :: "string \<Rightarrow> bool" where
  "numeric_looking s =
     (let t = map lower (filter (\<lambda>c. c \<noteq> CHR '' '' \<and> c \<noteq> CHR 0x09) s)
      in num_body CHR ''e'' t
         \<or> t \<in> set [''inf'', ''+inf'', ''-inf'', ''infinity'', ''+infinity'', ''-infinity'', ''true'', ''false''])"

definition int64_dtype :: "string list \<Rightarrow> string list \<Rightarrow> bool" where
  "int64_dtype na_values col = list_all (\<lambda>f. int_literal f \<and> f \<notin> set na_values) col"

definition object_dtype :: "string list \<Rightarrow> string list \<Rightarrow> bool" where
  "object_dtype na_values col =
     (col = [] \<or> list_ex (\<lambda>f. f \<notin> set na_values \<and> \<not> numeric_looking f) col)"

definition object_cell :: "string list \<Rightarrow> string \<Rightarrow> cell" where
  "object_cell na_values f = (if f \<in> set na_values then NaN else Str f)"

definition parse_record :: "string list \<Rightarrow> string list \<Rightarrow> row" where
  "parse_record na_values r =
     \<lparr>Sr_No = int_of_literal (r ! 0),
      Site_Name = object_cell na_values (r ! 1),
      Validation_Report = object_cell na_values (r ! 2),
      Issue_Sensors = object_cell na_values (r ! 3),
      WMS_Type = object_cell na_values (r ! 4),
      Issue_Description = object_cell na_values (r ! 5),
      Date_Logged = object_cell na_values (r ! 6)\<rparr>"

text \<open>
  Described are the files with the seven column names of the program, seven fields in
  every record, integers in the first column and text in the six others; any other file
  gives \<open>Unmodelled\<close>. The file without any record makes \<open>read_csv\<close> raise
  \<open>EmptyDataError\<close>.
\<close>

definition read_csv :: "string list \<Rightarrow> csv \<Rightarrow> exn + DataFrame" where
  "read_csv na_values file =
     (case file of
        [] \<Rightarrow> Inl EmptyDataError
      | header # records \<Rightarrow>
          if header = COLUMNS \<and> list_all (\<lambda>r. length r = 7) records
             \<and> int64_dtype na_values (map (\<lambda>r. r ! 0) records)
             \<and> list_all (\<lambda>j. object_dtype na_values (map (\<lambda>r. r ! j) records)) [1, 2, 3, 4, 5, 6]
          then Inr (map (parse_record na_values) records)
          else Inl Unmodelled)"

text \<open>\<open>load_data\<close>: a missing file is first written with the seed table.\<close>

definition load_data :: "string list \<Rightarrow> disk \<Rightarrow> (exn + DataFrame) \<times> disk" where
  "load_data na_values d =
     (case data_file d of
        None \<Rightarrow> (read_csv na_values (to_csv seed_data),
                 d\<lparr>data_file := Some (to_csv seed_data), writes := Suc (writes d)\<rparr>)
      | Some file \<Rightarrow> (read_csv na_values file, d))"

text \<open>A record whose sensor text is \<open>N/A\<close>, as a user may type it into the form.\<close>

definition row_F :: row where
  "row_F = mk_row 6 ''Site-F'' ''Pending'' ''N/A'' ''WMS-1'' ''Sensor not fitted'' ''2024-02-09''"

section \<open>Properties\<close>

subsection \<open>Auxiliary facts\<close>

lemma is_digit_digit_char: "k < 10 \<Longrightarrow> is_digit (digit_char k)"
  by (simp add: is_digit_def digit_char_def)

lemma is_digit_zero: "is_digit CHR ''0''"
  by (simp add: is_digit_def)

lemma str_nat_digits: "list_all is_digit (str_nat n)"
proof (induction n rule: str_nat.induct)
  case (1 n)
  show ?case
  proof (cases "n < 10")
    case True
    then show ?thesis by (subst str_nat.simps) (simp add: is_digit_digit_char)
  next
    case False
    with 1 show ?thesis by (subst str_nat.simps) (simp add: is_digit_digit_char)
  qed
qed

lemma length_str_nat: "0 < k \<Longrightarrow> n < 10 ^ k \<Longrightarrow> length (str_nat n) \<le> k"
proof (induction k arbitrary: n)
  case 0
  then show ?case by simp
next
  case (Suc k)
  show ?case
  proof (cases "n < 10")
    case True
    then show ?thesis by (subst str_nat.simps) simp
  next
    case False
    then have k: "0 < k" using Suc.prems by (cases k) simp_all
    from Suc.prems have "n div 10 < 10 ^ k"
      by (simp add: less_mult_imp_div_less mult.commute)
    with Suc.IH k have "length (str_nat (n div 10)) \<le> k" by simp
    with False show ?thesis by (subst str_nat.simps) simp
  qed
qed

lemma length_zfill: "length s \<le> w \<Longrightarrow> length (zfill w s) = w"
  by (simp add: zfill_def)

lemma digits_zfill: "list_all is_digit s \<Longrightarrow> list_all is_digit (zfill w s)"
  by (auto simp: zfill_def list_all_iff is_digit_zero)

lemma str_nat_longer: "10 ^ k \<le> n \<Longrightarrow> k < length (str_nat n)"
proof (induction k arbitrary: n)
  case 0
  show ?case by (subst str_nat.simps) simp
next
  case (Suc k)
  from Suc.prems have p: "10 * 10 ^ k \<le> n" by simp
  have q: "(10::nat) \<le> 10 * 10 ^ k" by simp
  from q p have ge: "10 \<le> n" by (rule order_trans)
  from Suc.prems have "10 ^ k \<le> n div 10"
    by (simp add: less_eq_div_iff_mult_less_eq mult.commute)
  with Suc.IH have "k < length (str_nat (n div 10))" by simp
  with ge show ?case by (subst str_nat.simps) simp
qed

lemma strftime_Ymd_form: "valid_date d \<Longrightarrow> 1000 \<le> year d \<Longrightarrow> iso_date_form (strftime_Ymd d)"
proof -
  assume v: "valid_date d" and y: "1000 \<le> year d"
  let ?y = "str_nat (year d)" and ?m = "zfill 2 (str_nat (month d))" and ?d = "zfill 2 (str_nat (day d))"
  from v have "year d < 10 ^ 4" "month d < 10 ^ 2" "day d < 10 ^ 2"
    by (simp_all add: valid_date_def)
  then have le: "length ?y \<le> 4" and len: "length ?m = 2" "length ?d = 2"
    by (simp_all add: length_zfill length_str_nat del: power_numeral)
  from y have "10 ^ 3 \<le> year d" by simp
  then have "3 < length ?y" by (rule str_nat_longer)
  with le have leny: "length ?y = 4" by simp
  have dig: "list_all is_digit ?y" "list_all is_digit ?m" "list_all is_digit ?d"
    by (simp_all add: digits_zfill str_nat_digits)
  have s: "strftime_Ymd d = ?y @ CHR ''-'' # ?m @ CHR ''-'' # ?d"
    by (simp add: strftime_Ymd_def)
  show ?thesis
    unfolding iso_date_form_def s using leny len dig
    by (simp add: nth_append)
qed

lemma strftime_Ymd_year_999: "strftime_Ymd \<lparr>year = 999, month = 1, day = 5\<rparr> = ''999-01-05''"
  by code_simp

lemma series_max_Max: "xs \<noteq> [] \<Longrightarrow> series_max xs = Some (Max (set xs))"
  by (cases xs) (simp_all add: Max.set_eq_fold [symmetric])

lemma wrap_int64_id: "in_int64 x \<Longrightarrow> wrap_int64 x = x"
  by (simp add: in_int64_def wrap_int64_def)

lemma wrap_int64_overflow: "wrap_int64 (2 ^ 63 - 1 + 1) = - (2 ^ 63)"
  by (simp add: wrap_int64_def)

lemma in_int64_wrap_int64: "in_int64 (wrap_int64 x)"
proof -
  have "0 \<le> (x + 2 ^ 63) mod (2 ^ 64 :: int)" "(x + 2 ^ 63) mod (2 ^ 64 :: int) < 2 ^ 64"
    by simp_all
  then show ?thesis
    by (simp add: in_int64_def wrap_int64_def)
qed

lemma next_sr_no_nonempty: "df \<noteq> [] \<Longrightarrow> next_sr_no df = Inr (wrap_int64 (Max (Sr_No ` set df) + 1))"
  by (simp add: next_sr_no_def series_max_Max)

lemma int64_column_Max:
  assumes "int64_column df" and "df \<noteq> []"
  shows "in_int64 (Max (Sr_No ` set df))"
proof -
  from assms(2) have "Max (Sr_No ` set df) \<in> Sr_No ` set df"
    by (intro Max_in) simp_all
  with assms(1) show ?thesis
    by (auto simp: int64_column_def list_all_iff)
qed

lemma ne_Str: "ne c (Str name) = (c \<noteq> Str name)"
  by (cases c) simp_all

lemma seed_data_max: "Max (Sr_No ` set seed_data) = 5"
  by (simp add: seed_data_def mk_row_def)

subsection \<open>Insert\<close>

text \<open>
  C2 (the serial number of an insert is the largest serial plus one, and 1 on an empty
  table). On the empty table the code assigns no serial number at all: the maximum of the
  empty column is the missing value, \<open>int\<close> of it raises \<open>ValueError\<close>, and the handler ends
  there, with the table and the file as they were.
\<close>

theorem add_record_empty_table_raises:
  "add_record day0 form_F ([], disk_of []) = (Raised ValueError, [], disk_of [])"
  by (simp add: add_record_def next_sr_no_def form_F_def)

text \<open>
  C3 (every insert with a site name stores \<open>None\<close> and \<open>No Issues\<close> for the empty texts and
  the current date, and appends the record after the existing rows). On the empty table the
  insert of Site-G with both texts empty stores no record: the handler raises \<open>ValueError\<close>
  where it computes the serial number, before the record is built; the table stays empty and
  the file, which holds the column names only, is not written.
\<close>

theorem add_record_empty_table_stores_nothing:
  "add_record day0 \<lparr>new_site = ''Site-G'', new_val = ''Failed'', new_wms = ''WMS-2'', new_sensor = [], new_issue_desc = []\<rparr>
     ([], disk_of [])
   = (Raised ValueError, [], \<lparr>data_file = Some [COLUMNS], writes = 0\<rparr>)"
  by (simp add: add_record_def next_sr_no_def disk_of_def to_csv_def)

text \<open>
  On a table with rows the insert with a site name reports success, the table becomes the
  old rows in their order followed by one new record, and that table is written to the file.
  The new record has the three selected or typed values as they are, \<open>None\<close> for an empty
  sensor text, \<open>No Issues\<close> for an empty description, the text of the current date, and as
  its serial the largest serial plus one in 64-bit arithmetic.
\<close>

lemma add_record_appends:
  assumes "new_site f \<noteq> []" and "df \<noteq> []"
  shows "\<exists>r. add_record today f (df, d)
            = (St_success (''Record for '' @ new_site f @ '' saved successfully!''), df @ [r], save_data (df @ [r]) d)
         \<and> Sr_No r = wrap_int64 (Max (Sr_No ` set df) + 1)
         \<and> Site_Name r = Str (new_site f)
         \<and> Validation_Report r = Str (new_val f)
         \<and> WMS_Type r = Str (new_wms f)
         \<and> Issue_Sensors r = Str (if new_sensor f = [] then ''None'' else new_sensor f)
         \<and> Issue_Description r = Str (if new_issue_desc f = [] then ''No Issues'' else new_issue_desc f)
         \<and> Date_Logged r = Str (strftime_Ymd today)"
proof -
  let ?r = "new_data (wrap_int64 (Max (Sr_No ` set df) + 1)) f today"
  from assms have "add_record today f (df, d)
      = (St_success (''Record for '' @ new_site f @ '' saved successfully!''), df @ [?r], save_data (df @ [?r]) d)"
    by (simp add: add_record_def next_sr_no_nonempty Let_def)
  then show ?thesis
    by (intro exI [of _ ?r]) (simp add: new_data_def)
qed

text \<open>
  The serial is the largest serial plus one as long as the largest serial is below
  \<open>2 ^ 63 - 1\<close>; at \<open>2 ^ 63 - 1\<close> the sum wraps around and the new serial is \<open>- 2 ^ 63\<close>.
  The date has the form \<open>YYYY-MM-DD\<close> from the year 1000 on.
\<close>

lemma add_record_serial:
  assumes "new_site f \<noteq> []" and "df \<noteq> []" and "int64_column df" and "Max (Sr_No ` set df) < 2 ^ 63 - 1"
  shows "map Sr_No (fst (snd (add_record today f (df, d)))) = map Sr_No df @ [Max (Sr_No ` set df) + 1]"
proof -
  from assms(3,2) have "in_int64 (Max (Sr_No ` set df))"
    by (rule int64_column_Max)
  with assms(4) have "in_int64 (Max (Sr_No ` set df) + 1)"
    by (simp add: in_int64_def)
  then have "wrap_int64 (Max (Sr_No ` set df) + 1) = Max (Sr_No ` set df) + 1"
    by (rule wrap_int64_id)
  with assms(1,2) show ?thesis
    by (simp add: add_record_def next_sr_no_nonempty Let_def new_data_def)
qed

lemma add_record_serial_wraps:
  assumes "new_site f \<noteq> []" and "df \<noteq> []" and "Max (Sr_No ` set df) = 2 ^ 63 - 1"
  shows "map Sr_No (fst (snd (add_record today f (df, d)))) = map Sr_No df @ [- (2 ^ 63)]"
  using assms(1,2) wrap_int64_overflow
  by (simp add: add_record_def next_sr_no_nonempty Let_def new_data_def assms(3))

text \<open>The serials stay in the range of the column: the seed table has them there, and an
  insert and a delete keep them there.\<close>

lemma int64_column_seed_data: "int64_column seed_data"
  by (simp add: int64_column_def in_int64_def seed_data_def mk_row_def)

lemma int64_column_add_record:
  "int64_column df \<Longrightarrow> int64_column (fst (snd (add_record today f (df, d))))"
  by (auto simp: add_record_def next_sr_no_def int64_column_def new_data_def in_int64_wrap_int64 Let_def
      split: option.splits)

lemma int64_column_delete_site:
  "int64_column df \<Longrightarrow> int64_column (fst (delete_site name (df, d)))"
  by (simp add: delete_site_def int64_column_def list_all_iff Let_def)

lemma add_record_seed_data:
  "add_record day0 form_F (seed_data, disk_of seed_data)
     = (St_success ''Record for Site-F saved successfully!'',
        seed_data @ [mk_row 6 ''Site-F'' ''Pending'' ''None'' ''WMS-1'' ''No Issues'' ''2024-02-09''],
        save_data (seed_data @ [mk_row 6 ''Site-F'' ''Pending'' ''None'' ''WMS-1'' ''No Issues'' ''2024-02-09''])
          (disk_of seed_data))"
proof -
  have s: "strftime_Ymd day0 = ''2024-02-09''"
    by code_simp
  have "seed_data \<noteq> []"
    by (simp add: seed_data_def)
  then have "next_sr_no seed_data = Inr (wrap_int64 (Max (Sr_No ` set seed_data) + 1))"
    by (rule next_sr_no_nonempty)
  then have n: "next_sr_no seed_data = Inr 6"
    by (simp add: seed_data_max wrap_int64_def)
  show ?thesis
    by (simp add: add_record_def n Let_def new_data_def s form_F_def mk_row_def)
qed

text \<open>
  C4: for every table, an insert with an empty site name is answered with the error message
  \<open>Site Name is required.\<close>; the table in memory is unchanged and so is the disk, the file
  content and the count of writes included.
\<close>

theorem add_record_requires_site_name:
  "new_site f = [] \<Longrightarrow> add_record today f (df, d) = (St_error ''Site Name is required.'', df, d)"
  by (simp add: add_record_def)

theorem add_record_requires_site_name_witness:
  "new_site (form_F\<lparr>new_site := []\<rparr>) = [] \<and>
   add_record day0 (form_F\<lparr>new_site := []\<rparr>) (seed_data, disk_of seed_data)
     = (St_error ''Site Name is required.'', seed_data, disk_of seed_data)"
  using add_record_requires_site_name [of "form_F\<lparr>new_site := []\<rparr>" day0 seed_data "disk_of seed_data"]
  by (simp add: form_F_def)

subsection \<open>Delete\<close>

text \<open>
  C5: for every table and name, the table after the delete is the old table without the
  rows whose site name is that name, every copy of them, the other rows in their order (the
  result is a subsequence of the old table); when no row has the name the table is
  unchanged; and the file holds the new table.
\<close>

theorem delete_site_exact:
  "fst (delete_site (Str name) (df, d)) = filter (\<lambda>r. Site_Name r \<noteq> Str name) df
   \<and> subseq (fst (delete_site (Str name) (df, d))) df
   \<and> (Str name \<notin> Site_Name ` set df \<longrightarrow> fst (delete_site (Str name) (df, d)) = df)
   \<and> data_file (snd (delete_site (Str name) (df, d))) = Some (to_csv (fst (delete_site (Str name) (df, d))))"
proof -
  have f: "fst (delete_site (Str name) (df, d)) = filter (\<lambda>r. Site_Name r \<noteq> Str name) df"
    by (simp add: delete_site_def ne_Str Let_def)
  have "Str name \<notin> Site_Name ` set df \<Longrightarrow> filter (\<lambda>r. Site_Name r \<noteq> Str name) df = df"
    by (rule filter_True) force
  moreover have "data_file (snd (delete_site (Str name) (df, d))) = Some (to_csv (fst (delete_site (Str name) (df, d))))"
    by (simp add: delete_site_def save_data_def Let_def)
  ultimately show ?thesis using f by simp
qed

theorem delete_site_exact_witness:
  "Str ''Site-X'' \<notin> Site_Name ` set seed_data
   \<and> fst (delete_site (Str ''Site-X'') (seed_data, disk_of seed_data)) = seed_data
   \<and> fst (delete_site (Str ''Site-E (North)'') (seed_data, disk_of seed_data)) = take 4 seed_data
   \<and> subseq (take 4 seed_data) seed_data"
proof -
  have a: "Str ''Site-X'' \<notin> Site_Name ` set seed_data"
    by (simp add: seed_data_def mk_row_def)
  have b: "filter (\<lambda>r. Site_Name r \<noteq> Str ''Site-E (North)'') seed_data = take 4 seed_data"
    by (simp add: seed_data_def mk_row_def)
  from delete_site_exact [of "''Site-X''" seed_data "disk_of seed_data"] a
  have c: "fst (delete_site (Str ''Site-X'') (seed_data, disk_of seed_data)) = seed_data"
    by blast
  note t = delete_site_exact [of "''Site-E (North)''" seed_data "disk_of seed_data"]
  from t have f: "fst (delete_site (Str ''Site-E (North)'') (seed_data, disk_of seed_data))
      = filter (\<lambda>r. Site_Name r \<noteq> Str ''Site-E (North)'') seed_data"
    by (rule conjunct1)
  from f b have d: "fst (delete_site (Str ''Site-E (North)'') (seed_data, disk_of seed_data)) = take 4 seed_data"
    by (rule trans)
  from t have e: "subseq (fst (delete_site (Str ''Site-E (North)'') (seed_data, disk_of seed_data))) seed_data"
    by blast
  from e have "subseq (take 4 seed_data) seed_data" unfolding d .
  with a c d show ?thesis by blast
qed

subsection \<open>Serial numbers after a delete\<close>

text \<open>
  C10 (for every non-empty table, once every row with the largest serial is deleted, the
  next insert assigns the largest surviving serial plus one, a serial that a deleted row
  may have had). In the table with the single row of Site-A, the delete of Site-A removes
  the row with the largest serial and leaves the table empty; the next insert then assigns
  no serial: it raises \<open>ValueError\<close>, the table stays empty, and the file keeps the column
  names written by the delete.
\<close>

theorem reinsert_after_deleting_only_row:
  "add_record day0 form_F (delete_site (Str ''Site-A (North)'') (take 1 seed_data, disk_of (take 1 seed_data)))
   = (Raised ValueError, [], \<lparr>data_file = Some [COLUMNS], writes = 1\<rparr>)"
  by (simp add: add_record_def delete_site_def next_sr_no_def form_F_def seed_data_def mk_row_def
      save_data_def disk_of_def to_csv_def)

text \<open>
  When a row survives, the insert after the delete does assign the largest surviving serial
  plus one: for every table with serials in the range of the column, if a delete removes
  every row that holds the largest serial and at least one row is left, the next insert
  appends a record whose serial is the largest surviving serial plus one. That serial is at
  most the former largest, so nothing wraps around and it can be the serial of a deleted
  row; it is larger than the serial of every surviving row, so serials that were distinct
  before stay distinct.
\<close>

lemma serial_reassigned_after_delete:
  assumes del: "(df', d') = delete_site (Str name) (df, d)"
      and survivors: "df' \<noteq> []"
      and max_deleted: "\<forall>r\<in>set df'. Sr_No r \<noteq> Max (Sr_No ` set df)"
      and site: "new_site f \<noteq> []"
      and range: "int64_column df"
  shows "\<exists>r. fst (snd (add_record today f (df', d'))) = df' @ [r]
           \<and> Sr_No r = Max (Sr_No ` set df') + 1
           \<and> (\<forall>x\<in>set df'. Sr_No x < Sr_No r)
           \<and> Sr_No r \<le> Max (Sr_No ` set df)
           \<and> (distinct (map Sr_No df) \<longrightarrow> distinct (map Sr_No (df' @ [r])))"
proof -
  let ?r = "new_data (Max (Sr_No ` set df') + 1) f today"
  from del have df': "df' = filter (\<lambda>r. Site_Name r \<noteq> Str name) df"
    by (simp add: delete_site_def ne_Str Let_def)
  then have sub: "set df' \<subseteq> set df" by auto
  with survivors have nonempty: "df \<noteq> []" by auto
  have fin: "finite (Sr_No ` set df')" "finite (Sr_No ` set df)" by simp_all
  from survivors have ne: "Sr_No ` set df' \<noteq> {}" by simp
  from ne fin(1) have "Max (Sr_No ` set df') \<in> Sr_No ` set df'"
    by (intro Max_in)
  then obtain m where m: "m \<in> set df'" "Sr_No m = Max (Sr_No ` set df')"
    by auto
  from m(1) sub have "Sr_No m \<le> Max (Sr_No ` set df)" by auto
  moreover from m(1) max_deleted have "Sr_No m \<noteq> Max (Sr_No ` set df)" by blast
  ultimately have less: "Max (Sr_No ` set df') + 1 \<le> Max (Sr_No ` set df)" using m(2) by simp
  from range nonempty have "in_int64 (Max (Sr_No ` set df))"
    by (rule int64_column_Max)
  moreover from m(1) sub range have "in_int64 (Sr_No m)"
    by (auto simp: int64_column_def list_all_iff)
  ultimately have "in_int64 (Max (Sr_No ` set df') + 1)"
    using less m(2) by (simp add: in_int64_def)
  then have w: "wrap_int64 (Max (Sr_No ` set df') + 1) = Max (Sr_No ` set df') + 1"
    by (rule wrap_int64_id)
  have a: "fst (snd (add_record today f (df', d'))) = df' @ [?r]"
    using site survivors by (simp add: add_record_def next_sr_no_nonempty w Let_def)
  have b: "Sr_No ?r = Max (Sr_No ` set df') + 1"
    by (simp add: new_data_def)
  have c: "\<forall>x\<in>set df'. Sr_No x < Sr_No ?r"
  proof
    fix x assume "x \<in> set df'"
    then have "Sr_No x \<le> Max (Sr_No ` set df')" by simp
    with b show "Sr_No x < Sr_No ?r" by simp
  qed
  from less b have e: "Sr_No ?r \<le> Max (Sr_No ` set df)" by simp
  have g: "distinct (map Sr_No df) \<longrightarrow> distinct (map Sr_No (df' @ [?r]))"
  proof
    assume "distinct (map Sr_No df)"
    then have "distinct (map Sr_No df')" unfolding df' by (rule distinct_map_filter)
    moreover from c have "Sr_No ?r \<notin> Sr_No ` set df'" by auto
    ultimately show "distinct (map Sr_No (df' @ [?r]))" by simp
  qed
  from a b c e g show ?thesis by blast
qed

text \<open>In the seed table, after the delete of Site-E, whose serial is 5, the next insert
  gets the serial 5 again.\<close>

lemma serial_reassigned_seed_data:
  "delete_site (Str ''Site-E (North)'') (seed_data, disk_of seed_data)
     = (take 4 seed_data, save_data (take 4 seed_data) (disk_of seed_data))
   \<and> Sr_No (seed_data ! 4) = 5
   \<and> map Sr_No (fst (snd (add_record day0 form_F (take 4 seed_data, save_data (take 4 seed_data) (disk_of seed_data)))))
       = [1, 2, 3, 4, 5]"
proof -
  have h1: "delete_site (Str ''Site-E (North)'') (seed_data, disk_of seed_data)
     = (take 4 seed_data, save_data (take 4 seed_data) (disk_of seed_data))"
    by (simp add: delete_site_def seed_data_def mk_row_def Let_def)
  have k: "Sr_No (seed_data ! 4) = 5"
    by (simp add: seed_data_def mk_row_def)
  have h: "new_site form_F \<noteq> []" "take 4 seed_data \<noteq> []" "int64_column (take 4 seed_data)"
    "Max (Sr_No ` set (take 4 seed_data)) < 2 ^ 63 - 1"
    by (simp_all add: form_F_def seed_data_def mk_row_def int64_column_def in_int64_def)
  have m4: "Max (Sr_No ` set (take 4 seed_data)) = 4" "map Sr_No (take 4 seed_data) = [1, 2, 3, 4]"
    by (simp_all add: seed_data_def mk_row_def)
  from add_record_serial [OF h, of day0 "save_data (take 4 seed_data) (disk_of seed_data)"] h1 k
  show ?thesis unfolding m4 by simp
qed

subsection \<open>Charts\<close>

lemma issue_df_filter: "issue_df df = filter (\<lambda>r. Issue_Sensors r \<noteq> Str ''None'') df"
  by (simp add: issue_df_def ne_Str)

lemma set_uniques: "set (uniques xs) = set xs"
  by (simp add: uniques_def)

lemma distinct_uniques: "distinct (uniques xs)"
  by (simp add: uniques_def)

lemma sum_label_counts: "sum_list (map snd (label_counts xs)) = length xs"
proof -
  have "sum_list (map snd (label_counts xs)) = sum_list (map (count_list xs) (uniques xs))"
    by (simp add: label_counts_def comp_def)
  also have "\<dots> = sum (count_list xs) (set (uniques xs))"
    by (rule sum_list_distinct_conv_sum_set) (rule distinct_uniques)
  also have "\<dots> = length xs"
    by (simp add: set_uniques sum_count_set)
  finally show ?thesis .
qed

lemma bar_height_label_counts: "bar_height (label_counts xs) k = count_list xs k"
  by (simp add: bar_height_def label_counts_def map_of_map_restrict restrict_map_def set_uniques)

lemma count_list_map_filter:
  "count_list (map g (filter P xs)) k = length (filter (\<lambda>r. P r \<and> g r = k) xs)"
  by (induction xs) simp_all

lemma distinct_keys_label_counts: "distinct (map fst (label_counts xs))"
  by (simp add: label_counts_def comp_def distinct_uniques)

lemma bar_height_reordered:
  assumes "mset ys = mset xs" and "distinct (map fst xs)"
  shows "bar_height ys k = bar_height xs k"
proof -
  from assms(1) have "mset (map fst ys) = mset (map fst xs)" by simp
  with assms(2) have "distinct (map fst ys)"
    by (metis mset_eq_imp_distinct_iff)
  moreover from assms(1) have "set ys = set xs" by (rule mset_eq_setD)
  ultimately have "map_of ys = map_of xs"
    using assms(2) by (simp add: map_of_inject_set)
  then show ?thesis by (simp add: bar_height_def)
qed

text \<open>
  C6: for every table, the counts of the sensor distribution add up to the number of rows
  whose sensor is not \<open>None\<close>.
\<close>

theorem issue_sensor_distribution_total:
  "sum_list (map snd (issue_sensor_distribution df)) = length (filter (\<lambda>r. Issue_Sensors r \<noteq> Str ''None'') df)"
  by (simp add: issue_sensor_distribution_def Let_def sum_label_counts issue_df_filter)

theorem issue_sensor_distribution_total_witness:
  "sum_list (map snd (issue_sensor_distribution seed_data)) = 3
   \<and> issue_sensor_distribution seed_data = [(Str ''Temp Sensor'', 1), (Str ''Humidity Sensor'', 1), (Str ''Pressure Sensor'', 1)]"
proof -
  have "length (filter (\<lambda>r. Issue_Sensors r \<noteq> Str ''None'') seed_data) = 3"
    by (simp add: seed_data_def mk_row_def)
  with issue_sensor_distribution_total [of seed_data]
  have "sum_list (map snd (issue_sensor_distribution seed_data)) = 3" by simp
  moreover have "issue_sensor_distribution seed_data = [(Str ''Temp Sensor'', 1), (Str ''Humidity Sensor'', 1), (Str ''Pressure Sensor'', 1)]"
    by (simp add: issue_sensor_distribution_def issue_df_def label_counts_def uniques_def seed_data_def mk_row_def)
  ultimately show ?thesis by simp
qed

text \<open>
  C7: for every table, whatever order \<open>sort_values\<close> gives, the bar of a WMS type and a
  validation report counts the rows with that type and that report among the rows whose
  sensor is not \<open>None\<close>, and the count of a description counts the rows with that
  description among the same rows. The validation report plays no part in the selection: a
  row with sensor \<open>None\<close> is left out whatever its report (\<open>Failed\<close> included) and a row with
  another sensor is taken whatever its report (\<open>Validated\<close> and \<open>Pending\<close> included).
\<close>

theorem issue_charts_use_issue_subset:
  assumes "\<forall>kvs. mset (sort_values kvs) = mset kvs"
  shows "bar_height (wms_failure_crosstab df) (Str w, Str v)
           = length (filter (\<lambda>r. Issue_Sensors r \<noteq> Str ''None'' \<and> WMS_Type r = Str w \<and> Validation_Report r = Str v) df)
       \<and> bar_height (top_issue_descriptions sort_values df) (Str descr)
           = length (filter (\<lambda>r. Issue_Sensors r \<noteq> Str ''None'' \<and> Issue_Description r = Str descr) df)
       \<and> (\<forall>r\<in>set df. Issue_Sensors r = Str ''None'' \<longrightarrow> r \<notin> set (issue_df df))
       \<and> (\<forall>r\<in>set df. Issue_Sensors r \<noteq> Str ''None'' \<longrightarrow> r \<in> set (issue_df df))"
proof -
  let ?P = "\<lambda>r. Issue_Sensors r \<noteq> Str ''None''"
  have e: "issue_df df = [] \<Longrightarrow> filter (\<lambda>r. ?P r \<and> g r = k) df = []" for g :: "row \<Rightarrow> 'b" and k
    by (auto simp: issue_df_filter filter_empty_conv)
  have a: "bar_height (wms_failure_crosstab df) (Str w, Str v)
           = length (filter (\<lambda>r. ?P r \<and> WMS_Type r = Str w \<and> Validation_Report r = Str v) df)"
  proof (cases "issue_df df = []")
    case True
    with e [of "\<lambda>r. (WMS_Type r, Validation_Report r)" "(Str w, Str v)"] show ?thesis
      by (simp add: wms_failure_crosstab_def bar_height_def)
  next
    case False
    then have "bar_height (wms_failure_crosstab df) (Str w, Str v)
        = count_list (map (\<lambda>r. (WMS_Type r, Validation_Report r)) (filter ?P df)) (Str w, Str v)"
      by (simp add: wms_failure_crosstab_def Let_def bar_height_label_counts issue_df_filter)
    then show ?thesis by (simp add: count_list_map_filter)
  qed
  have b: "bar_height (top_issue_descriptions sort_values df) (Str descr)
           = length (filter (\<lambda>r. ?P r \<and> Issue_Description r = Str descr) df)"
  proof (cases "issue_df df = []")
    case True
    with e [of Issue_Description "Str descr"] show ?thesis
      by (simp add: top_issue_descriptions_def bar_height_def)
  next
    case False
    let ?xs = "filter (\<lambda>c. c \<noteq> NaN) (map Issue_Description (issue_df df))"
    from False have "bar_height (top_issue_descriptions sort_values df) (Str descr)
        = bar_height (sort_values (label_counts ?xs)) (Str descr)"
      by (simp add: top_issue_descriptions_def Let_def value_counts_def)
    also have "\<dots> = bar_height (label_counts ?xs) (Str descr)"
      using assms by (intro bar_height_reordered distinct_keys_label_counts) simp
    also have "\<dots> = count_list ?xs (Str descr)"
      by (rule bar_height_label_counts)
    also have "\<dots> = count_list (map Issue_Description (filter ?P df)) (Str descr)"
      by (induction df) (simp_all add: issue_df_filter)
    finally show ?thesis by (simp add: count_list_map_filter)
  qed
  have c: "\<forall>r\<in>set df. Issue_Sensors r = Str ''None'' \<longrightarrow> r \<notin> set (issue_df df)"
    by (simp add: issue_df_filter)
  have d: "\<forall>r\<in>set df. Issue_Sensors r \<noteq> Str ''None'' \<longrightarrow> r \<in> set (issue_df df)"
    by (simp add: issue_df_filter)
  from a b c d show ?thesis by blast
qed

theorem issue_charts_use_issue_subset_witness:
  "(\<forall>kvs. mset (by_count_descending kvs) = mset kvs)
   \<and> bar_height (wms_failure_crosstab seed_data) (Str ''WMS-2'', Str ''Failed'') = 1
   \<and> bar_height (wms_failure_crosstab seed_data) (Str ''WMS-1'', Str ''Validated'') = 2
   \<and> bar_height (top_issue_descriptions by_count_descending seed_data) (Str ''No Issues'') = 0
   \<and> bar_height (top_issue_descriptions by_count_descending seed_data) (Str ''Power Failure'') = 1
   \<and> Validation_Report (seed_data ! 1) = Str ''Failed'' \<and> seed_data ! 1 \<notin> set (issue_df seed_data)
   \<and> Validation_Report (seed_data ! 0) = Str ''Validated'' \<and> seed_data ! 0 \<in> set (issue_df seed_data)"
proof -
  have h: "\<forall>kvs. mset (by_count_descending kvs) = mset kvs"
    by (simp add: by_count_descending_def)
  note t = issue_charts_use_issue_subset [OF h, of seed_data]
  have 1: "bar_height (wms_failure_crosstab seed_data) (Str ''WMS-2'', Str ''Failed'') = 1"
    using t [of "''WMS-2''" "''Failed''" "[]"] by (simp add: seed_data_def mk_row_def)
  have 2: "bar_height (wms_failure_crosstab seed_data) (Str ''WMS-1'', Str ''Validated'') = 2"
    using t [of "''WMS-1''" "''Validated''" "[]"] by (simp add: seed_data_def mk_row_def)
  have 3: "bar_height (top_issue_descriptions by_count_descending seed_data) (Str ''No Issues'') = 0"
    using t [of "[]" "[]" "''No Issues''"] by (simp add: seed_data_def mk_row_def)
  have 4: "bar_height (top_issue_descriptions by_count_descending seed_data) (Str ''Power Failure'') = 1"
    using t [of "[]" "[]" "''Power Failure''"] by (simp add: seed_data_def mk_row_def)
  have 5: "Validation_Report (seed_data ! 1) = Str ''Failed''" "seed_data ! 1 \<notin> set (issue_df seed_data)"
          "Validation_Report (seed_data ! 0) = Str ''Validated''" "seed_data ! 0 \<in> set (issue_df seed_data)"
    by (simp_all add: seed_data_def mk_row_def issue_df_def)
  from h 1 2 3 4 5 show ?thesis by blast
qed

subsection \<open>Search\<close>

text \<open>For a term without special characters the code does what the specification says.\<close>

lemma re_compile_plain:
  "list_all (\<lambda>c. \<not> metachar c) T \<Longrightarrow> re_compile depth T = (if depth = 0 then Inr (map Lit T) else Inl RegexError)"
  by (induction T) (auto simp: metachar_def)

lemma match_here_lits: "match_here (map Lit T) s = prefix (map lower T) (map lower s)"
  by (induction "map Lit T" s arbitrary: T rule: match_here.induct) auto

lemma re_search_lits: "re_search (map Lit T) s = sublist (map lower T) (map lower s)"
  by (induction s) (simp_all add: match_here_lits sublist_Cons_right)

lemma re_search_lits_eq: "re_search (map Lit T) = contains_ci T"
  by (rule ext) (simp add: re_search_lits contains_ci_def)

lemma search_plain_term:
  assumes "list_all (\<lambda>c. \<not> metachar c) T"
  shows "search T df = Inr (search_spec T df)"
proof (cases "T = []")
  case True
  then show ?thesis by (simp add: search_def search_spec_def)
next
  case False
  with assms show ?thesis
    by (simp add: search_def search_spec_def re_compile_plain re_search_lits_eq)
qed

lemma row_astype_str_mk_row:
  "row_astype_str (mk_row n site val sensor wms descr dat) = [str_int n, site, val, sensor, wms, descr, dat]"
  by (simp add: row_astype_str_def mk_row_def)

lemma str_int_seed:
  "str_int 1 = ''1''" "str_int 2 = ''2''" "str_int 3 = ''3''" "str_int 4 = ''4''" "str_int 5 = ''5''"
  by code_simp+

lemmas seed_text = seed_data_def row_astype_str_mk_row str_int_seed

text \<open>
  C1 (a record is found exactly when some field, case-folded, contains the case-folded term
  as a substring). The code hands the term to \<open>str.contains\<close> as a regular expression. For
  the term \<open>Site-A (North)\<close>, the name of the first seed site, the parentheses form a group,
  the pattern asks for \<open>Site-A North\<close>, and the search over the seed table finds nothing,
  although the site name of the first row is the term itself.
\<close>

theorem search_takes_term_as_regex:
  "search ''Site-A (North)'' seed_data = Inr []
   \<and> search_spec ''Site-A (North)'' seed_data = [seed_data ! 0]
   \<and> Site_Name (seed_data ! 0) = Str ''Site-A (North)''"
proof -
  have p: "re_compile 0 ''Site-A (North)'' = Inr (map Lit ''Site-A North'')"
    by (simp add: metachar_def)
  have a: "search ''Site-A (North)'' seed_data = Inr []"
    unfolding search_def p re_search_lits_eq
    by (simp add: seed_text contains_ci_def lower_def sublist_code prefix_code)
  have b: "search_spec ''Site-A (North)'' seed_data = [seed_data ! 0]"
    by (simp add: search_spec_def seed_text contains_ci_def lower_def sublist_code prefix_code)
  have c: "Site_Name (seed_data ! 0) = Str ''Site-A (North)''"
    by (simp add: seed_data_def mk_row_def)
  from a b c show ?thesis by simp
qed

text \<open>Two more terms: a dot finds every row though no field has a dot, and an opening
  parenthesis alone makes the search raise.\<close>

lemma search_dot_and_parenthesis:
  "search ''.'' seed_data = Inr seed_data \<and> search_spec ''.'' seed_data = []
   \<and> search ''('' seed_data = Inl RegexError"
proof -
  have a: "search ''.'' seed_data = Inr seed_data"
    by (simp add: search_def seed_text)
  have b: "search_spec ''.'' seed_data = []"
    by code_simp
  have c: "search ''('' seed_data = Inl RegexError"
    by (simp add: search_def seed_data_def)
  from a b c show ?thesis by simp
qed

subsection \<open>Writing and reading back\<close>

text \<open>With the tokens of pandas 1 the seed table is read back as it was written.\<close>

lemma read_csv_seed_data: "read_csv STR_NA_VALUES (to_csv seed_data) = Inr seed_data"
  by code_simp

text \<open>
  C8 (a table that is written and read back has the same fields). The code reads the file
  with the default NA handling of \<open>read_csv\<close>: in the seed table extended by a record with
  the sensor text \<open>N/A\<close>, that text is read back as the missing value.
\<close>

theorem read_csv_loses_na_text:
  "read_csv STR_NA_VALUES (to_csv (seed_data @ [row_F])) = Inr (seed_data @ [row_F\<lparr>Issue_Sensors := NaN\<rparr>])
   \<and> Issue_Sensors row_F = Str ''N/A''"
  by code_simp

text \<open>With the tokens of pandas 2 the sentinel \<open>None\<close> of the seed table itself is read back
  as the missing value.\<close>

lemma read_csv_None_is_na:
  "read_csv (''None'' # STR_NA_VALUES) (to_csv seed_data)
     = Inr (map (\<lambda>r. if Issue_Sensors r = Str ''None'' then r\<lparr>Issue_Sensors := NaN\<rparr> else r) seed_data)"
  by code_simp

end
